theory Spec2Isabelle
  imports Main "HOL-Library.Word" "HOL-Library.Log_Nat"
begin

section \<open>Python text\<close>

text \<open>
  A Python \<open>str\<close> is modelled as a \<open>string\<close> whose characters are the code points
  below 256. On that range \<open>str.isspace\<close> holds for the twelve code points listed in
  \<open>py_isspace\<close>, and \<open>str.lower\<close> moves \<open>A-Z\<close> and the Latin-1 capitals
  (192 to 222 without 215) up by 32.
\<close>

definition py_isspace :: "char \<Rightarrow> bool" where
  "py_isspace c = ((of_char c :: nat) \<in> {9, 10, 11, 12, 13, 28, 29, 30, 31, 32, 133, 160})"

definition py_strip :: "string \<Rightarrow> string" where
  "py_strip s = rev (dropWhile py_isspace (rev (dropWhile py_isspace s)))"

definition py_lower_char :: "char \<Rightarrow> char" where
  "py_lower_char c =
     (let n = (of_char c :: nat)
      in if (65 \<le> n \<and> n \<le> 90) \<or> (192 \<le> n \<and> n \<le> 222 \<and> n \<noteq> 215)
         then char_of (n + 32) else c)"

definition py_lower :: "string \<Rightarrow> string" where
  "py_lower s = map py_lower_char s"

section \<open>Module constants and the registry\<close>

text \<open>
  The constants the module reads from the process environment when it is imported.
  They are fixed for the lifetime of the process and arbitrary otherwise.
\<close>

record config =
  DEFAULT_MODE :: string
  DEFAULT_LANGUAGE :: string
  DEFAULT_SPEAKER :: string
  ALLOW_FALLBACK :: bool
  ALLOW_CROSS_MODE_FALLBACK :: bool

definition DEFAULT_VOICE_DESIGN_MODEL :: string where
  "DEFAULT_VOICE_DESIGN_MODEL = ''Qwen/Qwen3-TTS-12Hz-1.7B-VoiceDesign''"

definition DEFAULT_CUSTOM_VOICE_MODEL :: string where
  "DEFAULT_CUSTOM_VOICE_MODEL = ''Qwen/Qwen3-TTS-12Hz-0.6B-CustomVoice''"

definition DEFAULT_VOICE_CLONE_MODEL :: string where
  "DEFAULT_VOICE_CLONE_MODEL = ''Qwen/Qwen3-TTS-12Hz-0.6B-Base''"

text \<open>The dictionary keeps insertion order, so it is an association list.\<close>

definition MODEL_REGISTRY :: "(string \<times> string list) list" where
  "MODEL_REGISTRY =
     [(''voice_design'', [DEFAULT_VOICE_DESIGN_MODEL]),
      (''custom_voice'', [DEFAULT_CUSTOM_VOICE_MODEL, ''Qwen/Qwen3-TTS-12Hz-1.7B-CustomVoice'']),
      (''voice_clone'', [DEFAULT_VOICE_CLONE_MODEL, ''Qwen/Qwen3-TTS-12Hz-1.7B-Base''])]"

section \<open>Errors\<close>

text \<open>
  Every exception that can leave a function of the runner. \<open>Raised\<close> is an exception
  of the external runtime that the module does not distinguish further.
\<close>

datatype error =
    ValueError string
  | RuntimeError string
  | KeyError string
  | IndexError
  | TypeError
  | AttributeError string
  | OverflowError
  | WaveError
  | StructError
  | Raised string

definition and_then :: "error + 'a \<Rightarrow> ('a \<Rightarrow> error + 'b) \<Rightarrow> error + 'b" where
  "and_then r f = (case r of Inl e \<Rightarrow> Inl e | Inr v \<Rightarrow> f v)"

section \<open>Python floats\<close>

text \<open>
  A Python \<open>float\<close> is an IEEE 754 double: a rational number that a double can hold, an
  infinity or a NaN (the sign of zero is not observable in this program and is left out).
  \<open>fl_round\<close> rounds an exact rational result to the nearest double, ties to the even
  significand: 53 significant bits, subnormal below \<open>2 ^ -1022\<close>, infinite from
  \<open>2 ^ 1024\<close> on.
\<close>

datatype pyfloat = Finite rat | PosInf | NegInf | NaN

definition pow2 :: "int \<Rightarrow> rat" where
  "pow2 e = (if 0 \<le> e then 2 ^ nat e else 1 / 2 ^ nat (- e))"

definition floor_log2 :: "rat \<Rightarrow> int" where
  "floor_log2 x =
     (case quotient_of x of (p, q) \<Rightarrow>
        (let e = bitlen p - bitlen q in if pow2 e \<le> x then e else e - 1))"

definition round_half_even :: "rat \<Rightarrow> int" where
  "round_half_even x =
     (let f = \<lfloor>x\<rfloor>; d = x - of_int f
      in if d < 1 / 2 then f else if 1 / 2 < d then f + 1 else if even f then f else f + 1)"

definition fl_round :: "rat \<Rightarrow> pyfloat" where
  "fl_round x =
     (if x = 0 then Finite 0
      else (let a = \<bar>x\<bar>;
                e = max (floor_log2 a) (- 1022);
                ulp = pow2 (e - 52);
                r = of_int (round_half_even (a / ulp)) * ulp
            in if pow2 1024 \<le> r then (if 0 < x then PosInf else NegInf)
               else Finite (if 0 < x then r else - r)))"

definition fl_negative :: "pyfloat \<Rightarrow> bool" where
  "fl_negative a = (case a of Finite x \<Rightarrow> x < 0 | NegInf \<Rightarrow> True | _ \<Rightarrow> False)"

definition fl_mul :: "pyfloat \<Rightarrow> pyfloat \<Rightarrow> pyfloat" where
  "fl_mul a b =
     (case (a, b) of
        (Finite x, Finite y) \<Rightarrow> fl_round (x * y)
      | _ \<Rightarrow> if a = NaN \<or> b = NaN \<or> a = Finite 0 \<or> b = Finite 0 then NaN
             else if fl_negative a = fl_negative b then PosInf else NegInf)"

definition fl_less :: "pyfloat \<Rightarrow> pyfloat \<Rightarrow> bool" where
  "fl_less a b =
     (case (a, b) of
        (Finite x, Finite y) \<Rightarrow> x < y
      | (NaN, _) \<Rightarrow> False
      | (_, NaN) \<Rightarrow> False
      | (NegInf, NegInf) \<Rightarrow> False
      | (NegInf, _) \<Rightarrow> True
      | (PosInf, _) \<Rightarrow> False
      | (Finite x, PosInf) \<Rightarrow> True
      | (Finite x, NegInf) \<Rightarrow> False)"

text \<open>\<open>min(a, b)\<close> and \<open>max(a, b)\<close> keep \<open>a\<close> unless \<open>b\<close> compares below, above it.\<close>

definition py_min :: "pyfloat \<Rightarrow> pyfloat \<Rightarrow> pyfloat" where
  "py_min a b = (if fl_less b a then b else a)"

definition py_max :: "pyfloat \<Rightarrow> pyfloat \<Rightarrow> pyfloat" where
  "py_max a b = (if fl_less a b then b else a)"

definition trunc_to_zero :: "rat \<Rightarrow> int" where
  "trunc_to_zero x = (if 0 \<le> x then \<lfloor>x\<rfloor> else - \<lfloor>- x\<rfloor>)"

definition int_of_float :: "pyfloat \<Rightarrow> error + int" where
  "int_of_float a =
     (case a of
        Finite x \<Rightarrow> Inr (trunc_to_zero x)
      | NaN \<Rightarrow> Inl (ValueError ''cannot convert float NaN to integer'')
      | _ \<Rightarrow> Inl OverflowError)"

definition float_of_int :: "int \<Rightarrow> error + pyfloat" where
  "float_of_int n =
     (case fl_round (of_int n) of Finite x \<Rightarrow> Inr (Finite x) | _ \<Rightarrow> Inl OverflowError)"

text \<open>The double written \<open>0.35\<close>: \<open>0x1.6666666666666p-2\<close>.\<close>

definition seconds_default :: pyfloat where
  "seconds_default = Finite (6305039478318694 / 2 ^ 54)"

section \<open>Bytes, \<open>struct.pack\<close> and the \<open>wave\<close> writer\<close>

type_synonym byte = "8 word"

fun le_bytes :: "nat \<Rightarrow> int \<Rightarrow> byte list" where
  "le_bytes 0 v = []"
| "le_bytes (Suc n) v = word_of_int v # le_bytes n (v div 256)"

definition ascii :: "string \<Rightarrow> byte list" where
  "ascii s = map of_char s"

text \<open>\<open>struct.pack("<h", v)\<close>: two bytes, two's complement, low byte first.\<close>

definition struct_pack_h :: "int \<Rightarrow> error + byte list" where
  "struct_pack_h v = (if - 32768 \<le> v \<and> v \<le> 32767 then Inr (le_bytes 2 v) else Inl StructError)"

definition fits_H :: "int \<Rightarrow> bool" where
  "fits_H v = (0 \<le> v \<and> v < 2 ^ 16)"

definition fits_L :: "int \<Rightarrow> bool" where
  "fits_L v = (0 \<le> v \<and> v < 2 ^ 32)"

text \<open>
  The standard library's \<open>wave\<close> writer, as the runner drives it: \<open>setnchannels\<close>,
  \<open>setsampwidth\<close>, \<open>setframerate\<close>, one \<open>writeframes\<close>, close. It refuses a channel
  count below 1, a sample width outside 1 to 4 and a frame rate that is not positive
  (\<open>wave.Error\<close>), and its header fields are packed as unsigned 16 and 32 bit numbers
  (\<open>struct.error\<close> when one does not fit). The header first carries the data length in
  whole frames and is rewritten with the number of bytes written when the two differ.
\<close>

definition wave_header :: "int \<Rightarrow> int \<Rightarrow> int \<Rightarrow> int \<Rightarrow> error + byte list" where
  "wave_header nchannels sampwidth framerate datalength =
     (if fits_L (36 + datalength) \<and> fits_H nchannels \<and> fits_L framerate
         \<and> fits_L (nchannels * framerate * sampwidth) \<and> fits_H (nchannels * sampwidth)
         \<and> fits_H (sampwidth * 8) \<and> fits_L datalength
      then Inr (ascii ''RIFF'' @ le_bytes 4 (36 + datalength) @ ascii ''WAVE'' @ ascii ''fmt ''
                @ le_bytes 4 16 @ le_bytes 2 1 @ le_bytes 2 nchannels @ le_bytes 4 framerate
                @ le_bytes 4 (nchannels * framerate * sampwidth)
                @ le_bytes 2 (nchannels * sampwidth) @ le_bytes 2 (sampwidth * 8)
                @ ascii ''data'' @ le_bytes 4 datalength)
      else Inl StructError)"

definition wave_write :: "int \<Rightarrow> int \<Rightarrow> int \<Rightarrow> byte list \<Rightarrow> error + byte list" where
  "wave_write nchannels sampwidth framerate frames =
     (if nchannels < 1 \<or> sampwidth < 1 \<or> 4 < sampwidth \<or> framerate \<le> 0 then Inl WaveError
      else (let written = int (length frames);
                datalength = (written div (nchannels * sampwidth)) * nchannels * sampwidth
            in and_then (wave_header nchannels sampwidth framerate datalength)
                 (\<lambda>header.
                    if datalength = written then Inr (header @ frames)
                    else and_then (wave_header nchannels sampwidth framerate written)
                           (\<lambda>patched. Inr (patched @ frames)))))"

section \<open>Python values\<close>

text \<open>
  The values a generation method can hand back. \<open>PBytes\<close> stands for \<open>bytes\<close>,
  \<open>bytearray\<close> and \<open>memoryview\<close>, which the runner treats alike. A dictionary is
  looked up under string keys only. \<open>PObject d t\<close> is any other object (a tensor, an
  array): \<open>d\<close> is what \<open>.detach().cpu().numpy()\<close> does on it and \<open>t\<close> what
  \<open>.tolist()\<close> does, each absent, raising or returning a value.
\<close>

datatype 'a attr = Absent | Raises | Returns 'a

datatype pyval =
    PNone
  | PBool bool
  | PInt int
  | PFloat pyfloat
  | PStr string
  | PBytes "byte list"
  | PList "pyval list"
  | PTuple "pyval list"
  | PDict "(string \<times> pyval) list"
  | PObject "pyval attr" "pyval attr"

section \<open>Mode and model resolution\<close>

definition resolve_mode :: "config \<Rightarrow> string option \<Rightarrow> string" where
  "resolve_mode cfg mode =
     (let requested =
            py_lower (py_strip (case mode of None \<Rightarrow> DEFAULT_MODE cfg
                                | Some m \<Rightarrow> if m = [] then DEFAULT_MODE cfg else m))
      in if requested \<notin> set (map fst MODEL_REGISTRY) then DEFAULT_MODE cfg else requested)"

definition resolve_default_model_for_mode :: "string \<Rightarrow> error + string" where
  "resolve_default_model_for_mode mode =
     (case map_of MODEL_REGISTRY mode of
        None \<Rightarrow> Inl (KeyError mode)
      | Some [] \<Rightarrow> Inl IndexError
      | Some (m # _) \<Rightarrow> Inr m)"

definition resolve_model :: "string \<Rightarrow> string option \<Rightarrow> error + string" where
  "resolve_model mode model_id =
     (let requested = py_strip (case model_id of None \<Rightarrow> [] | Some m \<Rightarrow> m)
      in if requested = [] then resolve_default_model_for_mode mode else Inr requested)"

section \<open>Candidate resolution\<close>

type_synonym candidate = "string \<times> string"

text \<open>The de-duplication loop: \<open>seen\<close> is the set, \<open>unique\<close> the list built so far.\<close>

fun unique_entries :: "candidate list \<Rightarrow> candidate set \<Rightarrow> candidate list \<Rightarrow> candidate list" where
  "unique_entries [] seen unique = unique"
| "unique_entries (entry # rest) seen unique =
     (if entry \<in> seen then unique_entries rest seen unique
      else unique_entries rest (insert entry seen) (unique @ [entry]))"

definition same_mode_entries :: "string \<Rightarrow> string \<Rightarrow> candidate list" where
  "same_mode_entries mode requested_model =
     map (Pair mode)
       (filter (\<lambda>model_id. model_id \<noteq> requested_model)
          (case map_of MODEL_REGISTRY mode of None \<Rightarrow> [] | Some ids \<Rightarrow> ids))"

definition cross_mode_entries :: "string \<Rightarrow> string \<Rightarrow> candidate list" where
  "cross_mode_entries mode requested_model =
     concat (map (\<lambda>(fallback_mode, model_ids).
                    if fallback_mode = mode then []
                    else map (Pair fallback_mode)
                           (filter (\<lambda>model_id. model_id \<noteq> requested_model) model_ids))
               MODEL_REGISTRY)"

definition candidates_for_mode :: "config \<Rightarrow> string \<Rightarrow> string \<Rightarrow> bool \<Rightarrow> candidate list" where
  "candidates_for_mode cfg mode requested_model strict =
     (let ordered =
            (if requested_model \<noteq> [] then [(mode, requested_model)] else [])
            @ same_mode_entries mode requested_model
            @ (if \<not> strict \<and> ALLOW_CROSS_MODE_FALLBACK cfg
               then cross_mode_entries mode requested_model else [])
      in unique_entries ordered {} [])"

section \<open>The external runtime\<close>

text \<open>
  What the runner asks of its surroundings: the process environment and the file system
  (\<open>getenv\<close>, \<open>isdir\<close>), whether \<open>import qwen_tts\<close> and \<open>import torch\<close> succeed,
  whether the module has a \<open>Qwen3TTSModel\<close> attribute, and the model constructor
  \<open>Qwen3TTSModel.from_pretrained\<close>. A model object is a \<open>handle\<close>. The constructor
  returns an object, returns \<open>None\<close> or raises; its first argument is the number of
  instantiation attempts made before, so that the same source may behave differently
  from one attempt to the next.

  On a model object, \<open>model_method rt h name\<close> is \<open>getattr(h, name, None)\<close> for the
  generation methods: absent, or a function of the keyword arguments that returns a
  value or raises. \<open>supported_speakers rt h\<close> is the optional speaker query, which
  returns a list of names, returns \<open>None\<close> or raises. \<open>write_reference_file\<close>
  stores the reference audio in a fresh temporary file and gives its path.
  \<open>float_other\<close> and \<open>int_other\<close> are Python's \<open>float()\<close> and \<open>int()\<close> on
  text, bytes and foreign objects, which parse or call the object.
\<close>

type_synonym handle = nat

type_synonym kwargs = "(string \<times> string) list"

record runtime =
  getenv :: "string \<Rightarrow> string option"
  isdir :: "string \<Rightarrow> bool"
  import_qwen_tts :: bool
  has_Qwen3TTSModel :: bool
  import_torch :: bool
  from_pretrained :: "nat \<Rightarrow> string \<Rightarrow> kwargs \<Rightarrow> error + handle option"
  model_method :: "handle \<Rightarrow> string \<Rightarrow> (kwargs \<Rightarrow> error + pyval) option"
  supported_speakers :: "handle \<Rightarrow> (error + string list option) option"
  write_reference_file :: "byte list \<Rightarrow> error + string"
  float_other :: "pyval \<Rightarrow> error + pyfloat"
  int_other :: "pyval \<Rightarrow> error + int"

definition getenv_default :: "runtime \<Rightarrow> string \<Rightarrow> string \<Rightarrow> string" where
  "getenv_default rt name dflt = (case getenv rt name of None \<Rightarrow> dflt | Some v \<Rightarrow> v)"

definition basename :: "string \<Rightarrow> string" where
  "basename p = rev (takeWhile (\<lambda>c. c \<noteq> CHR ''/'') (rev p))"

definition path_join :: "string \<Rightarrow> string \<Rightarrow> string" where
  "path_join a b =
     (if b \<noteq> [] \<and> hd b = CHR ''/'' then b
      else if a = [] \<or> last a = CHR ''/'' then a @ b
      else a @ ''/'' @ b)"

definition resolve_local_model_path :: "runtime \<Rightarrow> string \<Rightarrow> string option" where
  "resolve_local_model_path rt model_id =
     (case getenv rt ''TTM_QWEN_LOCAL_MODEL_PATH'' of
        Some (c # cs) \<Rightarrow> Some (c # cs)
      | _ \<Rightarrow>
        (case getenv rt ''PYTHONHOME'' of
           Some (c # cs) \<Rightarrow>
             (let local_candidate = path_join (path_join (c # cs) ''models'') (basename model_id)
              in if isdir rt local_candidate then Some local_candidate else None)
         | _ \<Rightarrow> None))"

definition target_dtype :: "runtime \<Rightarrow> string option" where
  "target_dtype rt =
     (if \<not> import_torch rt then None
      else (let requested = py_lower (getenv_default rt ''TTM_QWEN_TORCH_DTYPE'' ''float32'')
            in if requested = ''float16'' then Some ''torch.float16''
               else if requested = ''bfloat16'' then Some ''torch.bfloat16''
               else Some ''torch.float32''))"

section \<open>Audio helpers\<close>

definition py_float :: "runtime \<Rightarrow> pyval \<Rightarrow> error + pyfloat" where
  "py_float rt v =
     (case v of
        PBool b \<Rightarrow> Inr (Finite (if b then 1 else 0))
      | PInt n \<Rightarrow> float_of_int n
      | PFloat x \<Rightarrow> Inr x
      | PNone \<Rightarrow> Inl TypeError
      | PList _ \<Rightarrow> Inl TypeError
      | PTuple _ \<Rightarrow> Inl TypeError
      | PDict _ \<Rightarrow> Inl TypeError
      | _ \<Rightarrow> float_other rt v)"

definition py_int :: "runtime \<Rightarrow> pyval \<Rightarrow> error + int" where
  "py_int rt v =
     (case v of
        PBool b \<Rightarrow> Inr (if b then 1 else 0)
      | PInt n \<Rightarrow> Inr n
      | PFloat x \<Rightarrow> int_of_float x
      | PNone \<Rightarrow> Inl TypeError
      | PList _ \<Rightarrow> Inl TypeError
      | PTuple _ \<Rightarrow> Inl TypeError
      | PDict _ \<Rightarrow> Inl TypeError
      | _ \<Rightarrow> int_other rt v)"

definition silent_wav :: "int \<Rightarrow> pyfloat \<Rightarrow> error + byte list" where
  "silent_wav sample_rate seconds =
     and_then (float_of_int sample_rate)
       (\<lambda>rate. and_then (int_of_float (fl_mul rate seconds))
          (\<lambda>n. (let frame_count = max 1 n;
                     pcm = concat (replicate (nat frame_count) [0, 0])
                 in wave_write 1 2 sample_rate pcm)))"

text \<open>
  The two guarded conversions at the head of \<open>_flatten_numeric_samples\<close>: each replaces
  \<open>data\<close> when the attribute is there and the call returns, and leaves it otherwise.
\<close>

definition detach_numpy :: "pyval \<Rightarrow> pyval" where
  "detach_numpy data = (case data of PObject (Returns v) _ \<Rightarrow> v | _ \<Rightarrow> data)"

definition tolist :: "pyval \<Rightarrow> pyval" where
  "tolist data = (case data of PObject _ (Returns v) \<Rightarrow> v | _ \<Rightarrow> data)"

function flatten_numeric_samples :: "runtime \<Rightarrow> pyval \<Rightarrow> error + pyfloat list"
  and flatten_items :: "runtime \<Rightarrow> pyval list \<Rightarrow> pyfloat list \<Rightarrow> error + pyfloat list" where
  "flatten_numeric_samples rt data =
     (case tolist (detach_numpy data) of
        PList items \<Rightarrow> flatten_items rt items []
      | PTuple items \<Rightarrow> flatten_items rt items []
      | leaf \<Rightarrow> and_then (py_float rt leaf) (\<lambda>x. Inr [x]))"
| "flatten_items rt [] flattened = Inr flattened"
| "flatten_items rt (item # rest) flattened =
     (case flatten_numeric_samples rt item of
        Inl e \<Rightarrow> Inl e
      | Inr xs \<Rightarrow> flatten_items rt rest (flattened @ xs))"
  by pat_completeness auto
termination
proof (relation "measure (\<lambda>x. case x of Inl (rt, data) \<Rightarrow> size data
                                 | Inr (rt, items, flattened) \<Rightarrow> size_list size items)")
  have step: "size (tolist (detach_numpy data)) \<le> size data" for data
    by (auto simp: tolist_def detach_numpy_def split: pyval.splits attr.splits)
  show "wf (measure (\<lambda>x. case x of Inl (rt, data) \<Rightarrow> size data
                                 | Inr (rt :: runtime, items, flattened :: pyfloat list) \<Rightarrow> size_list size items))"
    by simp
  show "(Inr (rt, items, []), Inl (rt, data))
          \<in> measure (\<lambda>x. case x of Inl (rt, data) \<Rightarrow> size data
                                 | Inr (rt, items, flattened) \<Rightarrow> size_list size items)"
    if "tolist (detach_numpy data) = PList items" for rt :: runtime and data items
    using step [of data] that by simp
  show "(Inr (rt, items, []), Inl (rt, data))
          \<in> measure (\<lambda>x. case x of Inl (rt, data) \<Rightarrow> size data
                                 | Inr (rt, items, flattened) \<Rightarrow> size_list size items)"
    if "tolist (detach_numpy data) = PTuple items" for rt :: runtime and data items
    using step [of data] that by simp
qed simp_all

definition clip :: "pyfloat \<Rightarrow> pyfloat" where
  "clip sample = py_max (Finite (- 1)) (py_min (Finite 1) sample)"

definition pack_sample :: "pyfloat \<Rightarrow> error + byte list" where
  "pack_sample sample =
     and_then (int_of_float (fl_mul sample (Finite 32767))) struct_pack_h"

fun join_packed :: "pyfloat list \<Rightarrow> error + byte list" where
  "join_packed [] = Inr []"
| "join_packed (sample # rest) =
     and_then (pack_sample sample)
       (\<lambda>bytes. and_then (join_packed rest) (\<lambda>more. Inr (bytes @ more)))"

definition to_wav_bytes :: "runtime \<Rightarrow> pyval \<Rightarrow> int \<Rightarrow> error + byte list" where
  "to_wav_bytes rt samples sample_rate =
     and_then (flatten_numeric_samples rt samples)
       (\<lambda>flat. (let clipped = map clip flat
                 in and_then (join_packed clipped) (\<lambda>pcm. wave_write 1 2 sample_rate pcm)))"

definition is_list_or_tuple :: "pyval \<Rightarrow> bool" where
  "is_list_or_tuple v = (case v of PList _ \<Rightarrow> True | PTuple _ \<Rightarrow> True | _ \<Rightarrow> False)"

definition normalize_samples :: "pyval \<Rightarrow> pyval" where
  "normalize_samples data0 =
     (let data1 =
            (case data0 of
               PObject (Returns array) _ \<Rightarrow>
                 (case array of PObject _ (Returns v) \<Rightarrow> v | _ \<Rightarrow> data0)
             | PObject Raises _ \<Rightarrow> data0
             | PObject Absent (Returns v) \<Rightarrow> v
             | _ \<Rightarrow> data0);
          data2 = (case data1 of PTuple items \<Rightarrow> PList items | _ \<Rightarrow> data1)
      in case data2 of
           PList (first # rest) \<Rightarrow>
             if is_list_or_tuple first
             then (if rest = [] then first
                   else PList (concat (map (\<lambda>item. case item of
                                                      PList xs \<Rightarrow> xs
                                                    | PTuple xs \<Rightarrow> xs
                                                    | _ \<Rightarrow> [item])
                                         (first # rest))))
             else data2
         | _ \<Rightarrow> data2)"

definition is_int_or_float :: "pyval \<Rightarrow> bool" where
  "is_int_or_float v = (case v of PBool _ \<Rightarrow> True | PInt _ \<Rightarrow> True | PFloat _ \<Rightarrow> True | _ \<Rightarrow> False)"

definition dict_get :: "(string \<times> pyval) list \<Rightarrow> string \<Rightarrow> pyval \<Rightarrow> pyval" where
  "dict_get kv key dflt = (case map_of kv key of None \<Rightarrow> dflt | Some v \<Rightarrow> v)"

definition extract_audio_and_sample_rate ::
  "runtime \<Rightarrow> pyval \<Rightarrow> int \<Rightarrow> error + (pyval \<times> int)" where
  "extract_audio_and_sample_rate rt output default_sample_rate =
     (case output of
        PDict kv \<Rightarrow>
          (let wav = dict_get kv ''wav'' PNone
           in and_then
                (py_int rt (dict_get kv ''sampling_rate''
                              (dict_get kv ''sample_rate'' (PInt default_sample_rate))))
                (\<lambda>sample_rate. Inr (wav, sample_rate)))
      | PTuple [first, second] \<Rightarrow>
          if is_int_or_float second
          then and_then (py_int rt second) (\<lambda>rate. Inr (first, rate))
          else Inr (output, default_sample_rate)
      | _ \<Rightarrow> Inr (output, default_sample_rate))"

section \<open>The lifecycle state\<close>

text \<open>
  The module's global variables. \<open>attempts\<close> is not a variable of the module: it lists,
  newest first, every candidate \<open>load_model\<close> handed to \<open>_create_model\<close> together with
  what came back, so that "no instantiation was attempted" and "the pair that was
  instantiated" can be stated.
\<close>

datatype pymodule = Qwen_tts

type_synonym attempt = "candidate \<times> (error + handle option)"

record runner_state =
  MODEL_LOADED :: bool
  QWEN_MODEL :: "handle option"
  QWEN_MODULE :: "pymodule option"
  ACTIVE_MODE :: "string option"
  ACTIVE_MODEL_ID :: "string option"
  attempts :: "attempt list"

definition initial_state :: runner_state where
  "initial_state =
     \<lparr>MODEL_LOADED = False, QWEN_MODEL = None, QWEN_MODULE = None,
      ACTIVE_MODE = None, ACTIVE_MODEL_ID = None, attempts = []\<rparr>"

definition load_qwen_module :: "runtime \<Rightarrow> runner_state \<Rightarrow> pymodule option \<times> runner_state" where
  "load_qwen_module rt s =
     (case QWEN_MODULE s of
        Some m \<Rightarrow> (Some m, s)
      | None \<Rightarrow>
          if import_qwen_tts rt then (Some Qwen_tts, s\<lparr>QWEN_MODULE := Some Qwen_tts\<rparr>)
          else (None, s))"

definition create_model ::
  "runtime \<Rightarrow> string \<Rightarrow> runner_state \<Rightarrow> (error + handle option) \<times> runner_state" where
  "create_model rt model_id s =
     (case load_qwen_module rt s of
        (None, s1) \<Rightarrow> (Inr None, s1)
      | (Some qwen_module, s1) \<Rightarrow>
          if \<not> has_Qwen3TTSModel rt then (Inr None, s1)
          else
            (let source = (case resolve_local_model_path rt model_id of
                             None \<Rightarrow> model_id | Some p \<Rightarrow> p);
                 kwargs = [(''device_map'', getenv_default rt ''TTM_QWEN_DEVICE_MAP'' ''cpu'')]
                          @ (case target_dtype rt of None \<Rightarrow> [] | Some d \<Rightarrow> [(''dtype'', d)])
                          @ (case getenv rt ''TTM_QWEN_ATTN_IMPLEMENTATION'' of
                               Some (c # cs) \<Rightarrow> [(''attn_implementation'', c # cs)]
                             | _ \<Rightarrow> [])
             in (from_pretrained rt (length (attempts s1)) source kwargs, s1)))"

definition already_loaded :: "runner_state \<Rightarrow> string \<Rightarrow> string \<Rightarrow> bool" where
  "already_loaded s mode model_id =
     (MODEL_LOADED s \<and> QWEN_MODEL s \<noteq> None \<and> ACTIVE_MODE s = Some mode
      \<and> ACTIVE_MODEL_ID s = Some model_id)"

definition clear_state :: "runner_state \<Rightarrow> runner_state" where
  "clear_state s =
     s\<lparr>QWEN_MODEL := None, MODEL_LOADED := False, ACTIVE_MODE := None, ACTIVE_MODEL_ID := None\<rparr>"

text \<open>
  The \<open>for\<close> loop of \<open>load_model\<close> over the candidates, with the statements after the
  loop as its empty case. An exception of \<open>_create_model\<close> leaves the loop and the
  function at once.
\<close>

fun load_candidates ::
  "config \<Rightarrow> runtime \<Rightarrow> candidate list \<Rightarrow> runner_state \<Rightarrow> (error + bool) \<times> runner_state" where
  "load_candidates cfg rt [] s = (Inr (ALLOW_FALLBACK cfg), clear_state s)"
| "load_candidates cfg rt ((candidate_mode, candidate_model) # rest) s =
     (case create_model rt candidate_model s of
        (Inl e, s1) \<Rightarrow>
          (Inl e, s1\<lparr>attempts := ((candidate_mode, candidate_model), Inl e) # attempts s1\<rparr>)
      | (Inr None, s1) \<Rightarrow>
          load_candidates cfg rt rest
            (s1\<lparr>attempts := ((candidate_mode, candidate_model), Inr None) # attempts s1\<rparr>)
      | (Inr (Some model), s1) \<Rightarrow>
          (Inr True,
           s1\<lparr>QWEN_MODEL := Some model, MODEL_LOADED := True,
              ACTIVE_MODE := Some candidate_mode, ACTIVE_MODEL_ID := Some candidate_model,
              attempts := ((candidate_mode, candidate_model), Inr (Some model)) # attempts s1\<rparr>))"

definition strict_load :: "string option \<Rightarrow> bool" where
  "strict_load strict = (case strict of None \<Rightarrow> False | Some v \<Rightarrow> v = ''1'')"

definition load_model ::
  "config \<Rightarrow> runtime \<Rightarrow> string option \<Rightarrow> string option \<Rightarrow> string option \<Rightarrow> runner_state
   \<Rightarrow> (error + bool) \<times> runner_state" where
  "load_model cfg rt mode model_id strict s =
     (let resolved_mode = resolve_mode cfg mode
      in case resolve_model resolved_mode model_id of
           Inl e \<Rightarrow> (Inl e, s)
         | Inr resolved_model \<Rightarrow>
             if already_loaded s resolved_mode resolved_model then (Inr True, s)
             else load_candidates cfg rt
                    (candidates_for_mode cfg resolved_mode resolved_model (strict_load strict)) s)"

definition unload_model :: "runner_state \<Rightarrow> bool \<times> runner_state" where
  "unload_model s = (True, clear_state s)"

definition is_model_loaded :: "runner_state \<Rightarrow> bool" where
  "is_model_loaded s = MODEL_LOADED s"

definition ensure_loaded ::
  "config \<Rightarrow> runtime \<Rightarrow> string \<Rightarrow> string \<Rightarrow> runner_state \<Rightarrow> (error + bool) \<times> runner_state" where
  "ensure_loaded cfg rt mode model_id s =
     (if already_loaded s mode model_id then (Inr True, s)
      else load_model cfg rt (Some mode) (Some model_id) (Some ''0'') s)"

text \<open>
  The pair the active handle was made for: the newest attempt that returned a model
  object.
\<close>

fun latest_success :: "attempt list \<Rightarrow> (candidate \<times> handle) option" where
  "latest_success [] = None"
| "latest_success ((c, Inr (Some h)) # rest) = Some (c, h)"
| "latest_success (a # rest) = latest_success rest"

definition lifecycle_inv :: "runner_state \<Rightarrow> bool" where
  "lifecycle_inv s =
     (MODEL_LOADED s = (QWEN_MODEL s \<noteq> None) \<and>
      (case (QWEN_MODEL s, ACTIVE_MODE s, ACTIVE_MODEL_ID s) of
         (None, None, None) \<Rightarrow> True
       | (Some h, Some m, Some i) \<Rightarrow> latest_success (attempts s) = Some ((m, i), h)
       | _ \<Rightarrow> False))"

text \<open>
  The states the lifecycle operations can produce from the state of a freshly imported
  module, whatever their arguments and whatever the runtime does at each call.
\<close>

inductive reachable :: "config \<Rightarrow> runner_state \<Rightarrow> bool" for cfg where
  init: "reachable cfg initial_state"
| load: "reachable cfg s \<Longrightarrow> reachable cfg (snd (load_model cfg rt mode model_id strict s))"
| unload: "reachable cfg s \<Longrightarrow> reachable cfg (snd (unload_model s))"
| ensure: "reachable cfg s \<Longrightarrow> reachable cfg (snd (ensure_loaded cfg rt mode model_id s))"

text \<open>What a call can do to the lifecycle fields: overwrite them from a fresh attempt, or clear them.\<close>

definition replaced_by :: "runner_state \<Rightarrow> candidate list \<Rightarrow> bool" where
  "replaced_by s' cs =
     (\<exists>h c. c \<in> set cs \<and> QWEN_MODEL s' = Some h \<and> MODEL_LOADED s' \<and>
            ACTIVE_MODE s' = Some (fst c) \<and> ACTIVE_MODEL_ID s' = Some (snd c) \<and>
            hd (attempts s') = (c, Inr (Some h)))"

definition cleared :: "runner_state \<Rightarrow> bool" where
  "cleared s' = (QWEN_MODEL s' = None \<and> \<not> MODEL_LOADED s' \<and> ACTIVE_MODE s' = None \<and>
                 ACTIVE_MODEL_ID s' = None)"

section \<open>Generation\<close>

text \<open>
  The tail shared by the three generation functions: extract payload and rate, pass
  bytes through, encode any other payload that is not \<open>None\<close>.
\<close>

definition payload_to_wav :: "runtime \<Rightarrow> pyval \<Rightarrow> error + byte list option" where
  "payload_to_wav rt output =
     and_then (extract_audio_and_sample_rate rt output 24000)
       (\<lambda>(wav_payload, sr).
          case wav_payload of
            PBytes b \<Rightarrow> Inr (Some b)
          | PNone \<Rightarrow> Inr None
          | _ \<Rightarrow> and_then (to_wav_bytes rt (normalize_samples wav_payload) sr)
                   (\<lambda>wav. Inr (Some wav)))"

definition call_method :: "runtime \<Rightarrow> handle \<Rightarrow> string \<Rightarrow> kwargs \<Rightarrow> error + pyval" where
  "call_method rt model name kw =
     (case model_method rt model name of None \<Rightarrow> Inl (AttributeError name) | Some f \<Rightarrow> f kw)"

definition generate_voice_design ::
  "runtime \<Rightarrow> string \<Rightarrow> string \<Rightarrow> string \<Rightarrow> runner_state \<Rightarrow> error + byte list option" where
  "generate_voice_design rt text instruct language s =
     (case QWEN_MODEL s of
        None \<Rightarrow> Inr None
      | Some model \<Rightarrow>
          and_then (call_method rt model ''generate_voice_design''
                      [(''text'', text), (''language'', language), (''instruct'', instruct)])
            (payload_to_wav rt))"

definition choose_speaker :: "config \<Rightarrow> runtime \<Rightarrow> handle \<Rightarrow> string \<Rightarrow> error + string" where
  "choose_speaker cfg rt model speaker =
     (let requested_speaker = py_lower (if speaker = [] then DEFAULT_SPEAKER cfg else speaker)
      in case supported_speakers rt model of
           None \<Rightarrow> Inr requested_speaker
         | Some (Inl e) \<Rightarrow> Inl e
         | Some (Inr None) \<Rightarrow> Inr requested_speaker
         | Some (Inr (Some supported)) \<Rightarrow>
             if supported \<noteq> [] \<and> requested_speaker \<notin> set supported then Inr (hd supported)
             else Inr requested_speaker)"

definition generate_custom_voice ::
  "config \<Rightarrow> runtime \<Rightarrow> string \<Rightarrow> string \<Rightarrow> string \<Rightarrow> string \<Rightarrow> runner_state
   \<Rightarrow> error + byte list option" where
  "generate_custom_voice cfg rt text speaker instruct language s =
     (case QWEN_MODEL s of
        None \<Rightarrow> Inr None
      | Some model \<Rightarrow>
          and_then (choose_speaker cfg rt model speaker)
            (\<lambda>requested_speaker.
               (let base = [(''text'', text), (''language'', language),
                            (''speaker'', requested_speaker)];
                    kw = (if instruct \<noteq> [] then base @ [(''instruct'', instruct)] else base)
                in and_then
                     (case call_method rt model ''generate_custom_voice'' kw of
                        Inl TypeError \<Rightarrow> call_method rt model ''generate_custom_voice'' base
                      | r \<Rightarrow> r)
                     (payload_to_wav rt))))"

text \<open>
  The loop of \<open>_generate_voice_clone\<close> over its three ways to call the model. A missing
  method and a \<open>TypeError\<close> from the call or from the encoding of its output move on to
  the next way, and so does an output without a payload; any other exception leaves.
\<close>

fun voice_clone_attempts ::
  "runtime \<Rightarrow> handle \<Rightarrow> (string \<times> kwargs) list \<Rightarrow> error + byte list option" where
  "voice_clone_attempts rt model [] = Inr None"
| "voice_clone_attempts rt model ((method_name, kw) # rest) =
     (case model_method rt model method_name of
        None \<Rightarrow> voice_clone_attempts rt model rest
      | Some f \<Rightarrow>
          (case and_then (f kw) (payload_to_wav rt) of
             Inr (Some wav) \<Rightarrow> Inr (Some wav)
           | Inr None \<Rightarrow> voice_clone_attempts rt model rest
           | Inl TypeError \<Rightarrow> voice_clone_attempts rt model rest
           | Inl e \<Rightarrow> Inl e))"

definition generate_voice_clone ::
  "runtime \<Rightarrow> string \<Rightarrow> byte list \<Rightarrow> string \<Rightarrow> runner_state \<Rightarrow> error + byte list option" where
  "generate_voice_clone rt text reference_audio language s =
     (case QWEN_MODEL s of
        None \<Rightarrow> Inr None
      | Some model \<Rightarrow>
          and_then (write_reference_file rt reference_audio)
            (\<lambda>reference_path.
               voice_clone_attempts rt model
                 [(''generate_voice_clone'',
                   [(''text'', text), (''language'', language),
                    (''reference_audio'', reference_path)]),
                  (''generate_voice_clone'',
                   [(''text'', text), (''language'', language),
                    (''prompt_audio'', reference_path)]),
                  (''generate_base'',
                   [(''text'', text), (''language'', language),
                    (''prompt_audio'', reference_path)])]))"

definition get_supported_speakers ::
  "config \<Rightarrow> runtime \<Rightarrow> string option \<Rightarrow> string option \<Rightarrow> runner_state
   \<Rightarrow> (error + string list) \<times> runner_state" where
  "get_supported_speakers cfg rt mode model_id s =
     (let resolved_mode = resolve_mode cfg mode
      in if resolved_mode \<noteq> ''custom_voice'' then (Inr [], s)
         else case resolve_model resolved_mode model_id of
                Inl e \<Rightarrow> (Inl e, s)
              | Inr resolved_model \<Rightarrow>
                  (case load_model cfg rt (Some resolved_mode) (Some resolved_model) (Some ''1'') s of
                     (Inl e, s1) \<Rightarrow> (Inl e, s1)
                   | (Inr False, s1) \<Rightarrow> (Inr [], s1)
                   | (Inr True, s1) \<Rightarrow>
                       (case QWEN_MODEL s1 of
                          None \<Rightarrow> (Inr [], s1)
                        | Some model \<Rightarrow>
                            (case supported_speakers rt model of
                               Some (Inr (Some speakers)) \<Rightarrow>
                                 (Inr (filter (\<lambda>speaker. speaker \<noteq> []) speakers), s1)
                             | _ \<Rightarrow> (Inr [], s1)))))"

section \<open>Synthesis entry points\<close>

definition synthesize_voice_design ::
  "config \<Rightarrow> runtime \<Rightarrow> string \<Rightarrow> string \<Rightarrow> string \<Rightarrow> int \<Rightarrow> string \<Rightarrow> runner_state
   \<Rightarrow> (error + byte list) \<times> runner_state" where
  "synthesize_voice_design cfg rt text instruct language sample_rate model_id s =
     (if py_strip text = [] then (Inl (ValueError ''text must not be empty''), s)
      else case resolve_model ''voice_design'' (Some model_id) of
             Inl e \<Rightarrow> (Inl e, s)
           | Inr resolved_model \<Rightarrow>
               (let resolved_language = (if language = [] then DEFAULT_LANGUAGE cfg else language)
                in case ensure_loaded cfg rt ''voice_design'' resolved_model s of
                     (Inl e, s1) \<Rightarrow> (Inl e, s1)
                   | (Inr False, s1) \<Rightarrow>
                       (Inl (RuntimeError ''Qwen3-TTS runtime unavailable: failed to load model''), s1)
                   | (Inr True, s1) \<Rightarrow>
                       (case generate_voice_design rt text instruct resolved_language s1 of
                          Inl e \<Rightarrow> (Inl e, s1)
                        | Inr (Some audio) \<Rightarrow> (Inr audio, s1)
                        | Inr None \<Rightarrow>
                            if ALLOW_FALLBACK cfg then (silent_wav sample_rate seconds_default, s1)
                            else (Inl (RuntimeError ''Qwen3-TTS VoiceDesign synthesis failed''), s1))))"

definition synthesize_custom_voice ::
  "config \<Rightarrow> runtime \<Rightarrow> string \<Rightarrow> string \<Rightarrow> string \<Rightarrow> string \<Rightarrow> int \<Rightarrow> string \<Rightarrow> runner_state
   \<Rightarrow> (error + byte list) \<times> runner_state" where
  "synthesize_custom_voice cfg rt text speaker instruct language sample_rate model_id s =
     (if py_strip text = [] then (Inl (ValueError ''text must not be empty''), s)
      else case resolve_model ''custom_voice'' (Some model_id) of
             Inl e \<Rightarrow> (Inl e, s)
           | Inr resolved_model \<Rightarrow>
               (let resolved_language = (if language = [] then DEFAULT_LANGUAGE cfg else language)
                in case ensure_loaded cfg rt ''custom_voice'' resolved_model s of
                     (Inl e, s1) \<Rightarrow> (Inl e, s1)
                   | (Inr False, s1) \<Rightarrow>
                       (Inl (RuntimeError ''Qwen3-TTS runtime unavailable: failed to load model''), s1)
                   | (Inr True, s1) \<Rightarrow>
                       (case generate_custom_voice cfg rt text
                               (if speaker = [] then DEFAULT_SPEAKER cfg else speaker)
                               instruct resolved_language s1 of
                          Inl e \<Rightarrow> (Inl e, s1)
                        | Inr (Some audio) \<Rightarrow> (Inr audio, s1)
                        | Inr None \<Rightarrow>
                            if ALLOW_FALLBACK cfg then (silent_wav sample_rate seconds_default, s1)
                            else (Inl (RuntimeError ''Qwen3-TTS CustomVoice synthesis failed''), s1))))"

definition synthesize_voice_clone ::
  "config \<Rightarrow> runtime \<Rightarrow> string \<Rightarrow> byte list \<Rightarrow> string \<Rightarrow> int \<Rightarrow> string \<Rightarrow> runner_state
   \<Rightarrow> (error + byte list) \<times> runner_state" where
  "synthesize_voice_clone cfg rt text reference_audio language sample_rate model_id s =
     (if py_strip text = [] then (Inl (ValueError ''text must not be empty''), s)
      else if reference_audio = [] then (Inl (ValueError ''reference_audio must not be empty''), s)
      else case resolve_model ''voice_clone'' (Some model_id) of
             Inl e \<Rightarrow> (Inl e, s)
           | Inr resolved_model \<Rightarrow>
               (let resolved_language = (if language = [] then DEFAULT_LANGUAGE cfg else language)
                in case ensure_loaded cfg rt ''voice_clone'' resolved_model s of
                     (Inl e, s1) \<Rightarrow> (Inl e, s1)
                   | (Inr False, s1) \<Rightarrow>
                       (Inl (RuntimeError ''Qwen3-TTS runtime unavailable: failed to load model''), s1)
                   | (Inr True, s1) \<Rightarrow>
                       (case generate_voice_clone rt text reference_audio resolved_language s1 of
                          Inl e \<Rightarrow> (Inl e, s1)
                        | Inr (Some audio) \<Rightarrow> (Inr audio, s1)
                        | Inr None \<Rightarrow>
                            if ALLOW_FALLBACK cfg then (silent_wav sample_rate seconds_default, s1)
                            else (Inl (RuntimeError ''Qwen3-TTS VoiceClone synthesis failed''), s1))))"

section \<open>The single-mode variant's audio helpers\<close>

text \<open>
  The functions of the same names in the single-mode runner
  (\<open>TTMPythonBridge/Resources/qwen_tts_runner.py\<close>), translated from that file.
\<close>

definition bridge_silent_wav :: "int \<Rightarrow> pyfloat \<Rightarrow> error + byte list" where
  "bridge_silent_wav sample_rate seconds =
     and_then (float_of_int sample_rate)
       (\<lambda>rate. and_then (int_of_float (fl_mul rate seconds))
          (\<lambda>n. (let frame_count = max 1 n;
                     pcm = concat (replicate (nat frame_count) [0, 0])
                 in wave_write 1 2 sample_rate pcm)))"

function bridge_flatten_numeric_samples :: "runtime \<Rightarrow> pyval \<Rightarrow> error + pyfloat list"
  and bridge_flatten_items :: "runtime \<Rightarrow> pyval list \<Rightarrow> pyfloat list \<Rightarrow> error + pyfloat list" where
  "bridge_flatten_numeric_samples rt data =
     (case tolist (detach_numpy data) of
        PList items \<Rightarrow> bridge_flatten_items rt items []
      | PTuple items \<Rightarrow> bridge_flatten_items rt items []
      | leaf \<Rightarrow> and_then (py_float rt leaf) (\<lambda>x. Inr [x]))"
| "bridge_flatten_items rt [] flattened = Inr flattened"
| "bridge_flatten_items rt (item # rest) flattened =
     (case bridge_flatten_numeric_samples rt item of
        Inl e \<Rightarrow> Inl e
      | Inr xs \<Rightarrow> bridge_flatten_items rt rest (flattened @ xs))"
  by pat_completeness auto
termination
proof (relation "measure (\<lambda>x. case x of Inl (rt, data) \<Rightarrow> size data
                                 | Inr (rt, items, flattened) \<Rightarrow> size_list size items)")
  have step: "size (tolist (detach_numpy data)) \<le> size data" for data
    by (auto simp: tolist_def detach_numpy_def split: pyval.splits attr.splits)
  show "wf (measure (\<lambda>x. case x of Inl (rt, data) \<Rightarrow> size data
                                 | Inr (rt :: runtime, items, flattened :: pyfloat list) \<Rightarrow> size_list size items))"
    by simp
  show "(Inr (rt, items, []), Inl (rt, data))
          \<in> measure (\<lambda>x. case x of Inl (rt, data) \<Rightarrow> size data
                                 | Inr (rt, items, flattened) \<Rightarrow> size_list size items)"
    if "tolist (detach_numpy data) = PList items" for rt :: runtime and data items
    using step [of data] that by simp
  show "(Inr (rt, items, []), Inl (rt, data))
          \<in> measure (\<lambda>x. case x of Inl (rt, data) \<Rightarrow> size data
                                 | Inr (rt, items, flattened) \<Rightarrow> size_list size items)"
    if "tolist (detach_numpy data) = PTuple items" for rt :: runtime and data items
    using step [of data] that by simp
qed simp_all

fun bridge_join_packed :: "pyfloat list \<Rightarrow> error + byte list" where
  "bridge_join_packed [] = Inr []"
| "bridge_join_packed (sample # rest) =
     and_then (and_then (int_of_float (fl_mul sample (Finite 32767))) struct_pack_h)
       (\<lambda>bytes. and_then (bridge_join_packed rest) (\<lambda>more. Inr (bytes @ more)))"

definition bridge_to_wav_bytes :: "runtime \<Rightarrow> pyval \<Rightarrow> int \<Rightarrow> error + byte list" where
  "bridge_to_wav_bytes rt samples sample_rate =
     and_then (bridge_flatten_numeric_samples rt samples)
       (\<lambda>flat. (let clipped = map (\<lambda>sample. py_max (Finite (- 1)) (py_min (Finite 1) sample)) flat
                 in and_then (bridge_join_packed clipped)
                      (\<lambda>pcm. wave_write 1 2 sample_rate pcm)))"

definition bridge_normalize_samples :: "pyval \<Rightarrow> pyval" where
  "bridge_normalize_samples data0 =
     (let data1 =
            (case data0 of
               PObject (Returns array) _ \<Rightarrow>
                 (case array of PObject _ (Returns v) \<Rightarrow> v | _ \<Rightarrow> data0)
             | PObject Raises _ \<Rightarrow> data0
             | PObject Absent (Returns v) \<Rightarrow> v
             | _ \<Rightarrow> data0);
          data2 = (case data1 of PTuple items \<Rightarrow> PList items | _ \<Rightarrow> data1)
      in case data2 of
           PList (first # rest) \<Rightarrow>
             if is_list_or_tuple first
             then (if rest = [] then first
                   else PList (concat (map (\<lambda>item. case item of
                                                      PList xs \<Rightarrow> xs
                                                    | PTuple xs \<Rightarrow> xs
                                                    | _ \<Rightarrow> [item])
                                         (first # rest))))
             else data2
         | _ \<Rightarrow> data2)"

definition bridge_extract_audio_and_sample_rate ::
  "runtime \<Rightarrow> pyval \<Rightarrow> int \<Rightarrow> error + (pyval \<times> int)" where
  "bridge_extract_audio_and_sample_rate rt output default_sample_rate =
     (case output of
        PDict kv \<Rightarrow>
          (let wav = dict_get kv ''wav'' PNone
           in and_then
                (py_int rt (dict_get kv ''sampling_rate''
                              (dict_get kv ''sample_rate'' (PInt default_sample_rate))))
                (\<lambda>sample_rate. Inr (wav, sample_rate)))
      | PTuple [first, second] \<Rightarrow>
          if is_int_or_float second
          then and_then (py_int rt second) (\<lambda>rate. Inr (first, rate))
          else Inr (output, default_sample_rate)
      | _ \<Rightarrow> Inr (output, default_sample_rate))"

section \<open>The encoding in closed form\<close>

text \<open>
  The 16-bit value \<open>_to_wav_bytes\<close> computes for one clipped sample,
  \<open>int(sample * 32767.0)\<close>: the product as a double, cut off towards zero.
\<close>

definition pcm16 :: "pyfloat \<Rightarrow> int" where
  "pcm16 sample = (case fl_mul sample (Finite 32767) of Finite x \<Rightarrow> trunc_to_zero x | _ \<Rightarrow> 0)"

text \<open>
  The frame count of \<open>_silent_wav\<close> at its default length,
  \<open>max(1, int(sample_rate * 0.35))\<close>, with the product taken as a double.
\<close>

definition silence_frame_count :: "int \<Rightarrow> int" where
  "silence_frame_count sample_rate =
     max 1 (case fl_mul (Finite (of_int sample_rate)) seconds_default of
              Finite x \<Rightarrow> trunc_to_zero x | _ \<Rightarrow> 0)"

text \<open>
  A mono 16-bit PCM WAV file with the given sample rate and frame bytes: the 44-byte
  RIFF header (format 1, one channel, two bytes to the frame, sixteen bits to the
  sample) and the frames.
\<close>

definition mono16_wav :: "int \<Rightarrow> byte list \<Rightarrow> byte list" where
  "mono16_wav sample_rate frames =
     ascii ''RIFF'' @ le_bytes 4 (36 + int (length frames)) @ ascii ''WAVE'' @ ascii ''fmt ''
     @ le_bytes 4 16 @ le_bytes 2 1 @ le_bytes 2 1 @ le_bytes 4 sample_rate
     @ le_bytes 4 (2 * sample_rate) @ le_bytes 2 2 @ le_bytes 2 16
     @ ascii ''data'' @ le_bytes 4 (int (length frames)) @ frames"

text \<open>
  \<open>toWav\<close> as the specification words it: clip each sample, scale it with
  \<open>round(sample * 32767)\<close> (Python's \<open>round\<close>, to the nearest integer, ties to even),
  pack little-endian, wrap in the container.
\<close>

definition spec_scale :: "pyfloat \<Rightarrow> int" where
  "spec_scale sample =
     (case fl_mul sample (Finite 32767) of Finite x \<Rightarrow> round_half_even x | _ \<Rightarrow> 0)"

definition spec_to_wav :: "pyfloat list \<Rightarrow> int \<Rightarrow> error + byte list" where
  "spec_to_wav samples sample_rate =
     wave_write 1 2 sample_rate
       (concat (map (\<lambda>sample. le_bytes 2 (spec_scale (clip sample))) samples))"

section \<open>Example surroundings\<close>

text \<open>
  The configuration of a process with none of the \<open>TTM_QWEN_*\<close> variables set, and a
  runtime in which every import succeeds, the environment is empty and every
  constructor call returns a model object, numbered by the attempt; the objects have no
  generation methods. The other examples change one field of these.
\<close>

definition default_config :: config where
  "default_config =
     \<lparr>DEFAULT_MODE = ''voice_design'', DEFAULT_LANGUAGE = ''English'',
      DEFAULT_SPEAKER = ''ryan'', ALLOW_FALLBACK = False, ALLOW_CROSS_MODE_FALLBACK = True\<rparr>"

definition fallback_config :: config where
  "fallback_config = default_config\<lparr>ALLOW_FALLBACK := True\<rparr>"

definition working_runtime :: runtime where
  "working_runtime =
     \<lparr>getenv = (\<lambda>name. None), isdir = (\<lambda>path. False), import_qwen_tts = True,
      has_Qwen3TTSModel = True, import_torch = True,
      from_pretrained = (\<lambda>n source kw. Inr (Some n)),
      model_method = (\<lambda>h name. None), supported_speakers = (\<lambda>h. None),
      write_reference_file = (\<lambda>audio. Inr ''/tmp/reference.wav''),
      float_other = (\<lambda>v. Inl TypeError), int_other = (\<lambda>v. Inl TypeError)\<rparr>"

definition runtime_without_qwen :: runtime where
  "runtime_without_qwen = working_runtime\<lparr>import_qwen_tts := False\<rparr>"

text \<open>The constructor raises for the default custom-voice model and works for any other.\<close>

definition runtime_missing_default :: runtime where
  "runtime_missing_default =
     working_runtime\<lparr>from_pretrained :=
       (\<lambda>n source kw. if source = DEFAULT_CUSTOM_VOICE_MODEL
                       then Inl (Raised ''OSError'') else Inr (Some n))\<rparr>"

text \<open>
  The state after the default voice-design model was loaded into a fresh module, and the
  state after a custom-voice model replaced it.
\<close>

definition voice_design_loaded :: runner_state where
  "voice_design_loaded =
     \<lparr>MODEL_LOADED = True, QWEN_MODEL = Some 0, QWEN_MODULE = Some Qwen_tts,
      ACTIVE_MODE = Some ''voice_design'', ACTIVE_MODEL_ID = Some DEFAULT_VOICE_DESIGN_MODEL,
      attempts = [((''voice_design'', DEFAULT_VOICE_DESIGN_MODEL), Inr (Some 0))]\<rparr>"

definition custom_voice_reloaded :: runner_state where
  "custom_voice_reloaded =
     \<lparr>MODEL_LOADED = True, QWEN_MODEL = Some 1, QWEN_MODULE = Some Qwen_tts,
      ACTIVE_MODE = Some ''custom_voice'', ACTIVE_MODEL_ID = Some DEFAULT_CUSTOM_VOICE_MODEL,
      attempts = [((''custom_voice'', DEFAULT_CUSTOM_VOICE_MODEL), Inr (Some 1)),
                  ((''voice_design'', DEFAULT_VOICE_DESIGN_MODEL), Inr (Some 0))]\<rparr>"

section \<open>Properties of candidate resolution\<close>

lemma unique_entries_append:
  "unique_entries es seen (u @ v) = u @ unique_entries es seen v"
  by (induction es arbitrary: seen v) simp_all

lemma unique_entries_distinct:
  "distinct unique \<Longrightarrow> set unique \<subseteq> seen \<Longrightarrow> distinct (unique_entries es seen unique)"
proof (induction es arbitrary: seen unique)
  case Nil
  then show ?case by simp
next
  case (Cons e es)
  show ?case
  proof (cases "e \<in> seen")
    case True
    with Cons show ?thesis by simp
  next
    case False
    with Cons.prems have "distinct (unique @ [e])" and "set (unique @ [e]) \<subseteq> insert e seen"
      by auto
    then have "distinct (unique_entries es (insert e seen) (unique @ [e]))"
      by (rule Cons.IH)
    with False show ?thesis by simp
  qed
qed

lemma unique_entries_subset:
  "set (unique_entries es seen unique) \<subseteq> set unique \<union> set es"
proof (induction es arbitrary: seen unique)
  case Nil
  show ?case by simp
next
  case (Cons e es)
  show ?case
  proof (cases "e \<in> seen")
    case True
    with Cons.IH [of seen unique] show ?thesis by auto
  next
    case False
    with Cons.IH [of "insert e seen" "unique @ [e]"] show ?thesis by auto
  qed
qed

lemma candidates_for_mode_distinct:
  "distinct (candidates_for_mode cfg mode requested_model strict)"
  unfolding candidates_for_mode_def Let_def
  by (rule unique_entries_distinct) simp_all

lemma candidates_for_mode_Cons:
  assumes "requested_model \<noteq> []"
  shows "\<exists>rest. candidates_for_mode cfg mode requested_model strict
                = (mode, requested_model) # rest"
proof -
  have "unique_entries es (insert e {}) ([e] @ []) = [e] @ unique_entries es (insert e {}) []"
    for es and e :: candidate
    by (rule unique_entries_append)
  with assms show ?thesis
    by (simp add: candidates_for_mode_def Let_def)
qed

lemma candidates_for_mode_strict:
  "c \<in> set (candidates_for_mode cfg mode requested_model True) \<Longrightarrow> fst c = mode"
  using unique_entries_subset
    [of "(if requested_model \<noteq> [] then [(mode, requested_model)] else [])
         @ same_mode_entries mode requested_model" "{}" "[]"]
  by (auto simp: candidates_for_mode_def same_mode_entries_def split: if_splits)

text \<open>
  C4. The candidate list holds no (mode, model id) pair twice, and when a requested model
  id is supplied (a non-empty string) the pair (mode, requested model id) is its first
  element.
\<close>

theorem candidates_distinct_requested_first:
  "distinct (candidates_for_mode cfg mode requested_model strict) \<and>
   (requested_model \<noteq> [] \<longrightarrow>
      (\<exists>rest. candidates_for_mode cfg mode requested_model strict
               = (mode, requested_model) # rest))"
  using candidates_for_mode_distinct candidates_for_mode_Cons by blast

theorem candidates_distinct_requested_first_witness:
  "''my/model'' \<noteq> [] \<and>
   distinct (candidates_for_mode default_config ''custom_voice'' ''my/model'' False) \<and>
   (\<exists>rest. candidates_for_mode default_config ''custom_voice'' ''my/model'' False
            = (''custom_voice'', ''my/model'') # rest)"
  using candidates_distinct_requested_first
          [of default_config "''custom_voice''" "''my/model''" False]
  by simp

section \<open>Properties of the lifecycle\<close>

lemma load_qwen_module_fields:
  "load_qwen_module rt s = (m, s1) \<Longrightarrow>
     MODEL_LOADED s1 = MODEL_LOADED s \<and> QWEN_MODEL s1 = QWEN_MODEL s \<and>
     ACTIVE_MODE s1 = ACTIVE_MODE s \<and> ACTIVE_MODEL_ID s1 = ACTIVE_MODEL_ID s \<and>
     attempts s1 = attempts s"
  by (auto simp: load_qwen_module_def split: option.splits if_splits)

lemma create_model_fields:
  "create_model rt model_id s = (r, s1) \<Longrightarrow>
     MODEL_LOADED s1 = MODEL_LOADED s \<and> QWEN_MODEL s1 = QWEN_MODEL s \<and>
     ACTIVE_MODE s1 = ACTIVE_MODE s \<and> ACTIVE_MODEL_ID s1 = ACTIVE_MODEL_ID s \<and>
     attempts s1 = attempts s"
  by (auto simp: create_model_def Let_def split: prod.splits option.splits if_splits
      dest: load_qwen_module_fields)





text \<open>
  C2. In a state that is loaded with a handle and whose active pair is exactly the
  resolved (mode, model id) of the request, \<open>load_model\<close> returns success and the state
  it leaves is the state it found: handle, loaded flag, active mode and active model id
  are unchanged, and the log of instantiation attempts has no new entry.
\<close>

theorem load_model_idempotent:
  assumes "resolve_model (resolve_mode cfg mode) model_id = Inr resolved_model"
    and "already_loaded s (resolve_mode cfg mode) resolved_model"
  shows "load_model cfg rt mode model_id strict s = (Inr True, s)"
  using assms by (simp add: load_model_def Let_def)

theorem load_model_idempotent_witness:
  "resolve_model (resolve_mode default_config (Some ''custom_voice'')) None
     = Inr DEFAULT_CUSTOM_VOICE_MODEL \<and>
   already_loaded
     (snd (load_model default_config working_runtime (Some ''custom_voice'') None None
             initial_state))
     (resolve_mode default_config (Some ''custom_voice'')) DEFAULT_CUSTOM_VOICE_MODEL \<and>
   load_model default_config runtime_without_qwen (Some ''custom_voice'') None None
     (snd (load_model default_config working_runtime (Some ''custom_voice'') None None
             initial_state))
   = (Inr True,
      snd (load_model default_config working_runtime (Some ''custom_voice'') None None
             initial_state))"
proof -
  let ?s = "snd (load_model default_config working_runtime (Some ''custom_voice'') None None
                   initial_state)"
  have res: "resolve_model (resolve_mode default_config (Some ''custom_voice'')) None
               = Inr DEFAULT_CUSTOM_VOICE_MODEL"
    by code_simp
  have loaded: "already_loaded ?s (resolve_mode default_config (Some ''custom_voice''))
                  DEFAULT_CUSTOM_VOICE_MODEL"
    by code_simp
  from load_model_idempotent [OF res loaded, of runtime_without_qwen None] res loaded
  show ?thesis by simp
qed

lemma load_candidates_inv:
  "lifecycle_inv s \<Longrightarrow> lifecycle_inv (snd (load_candidates cfg rt cs s))"
proof (induction cs arbitrary: s)
  case Nil
  then show ?case by (simp add: lifecycle_inv_def clear_state_def)
next
  case (Cons c cs)
  obtain cm cid where c: "c = (cm, cid)" by (cases c)
  obtain out s1 where cr: "create_model rt cid s = (out, s1)"
    by (cases "create_model rt cid s")
  note f = create_model_fields [OF cr]
  show ?case
  proof (cases out)
    case (Inl e)
    with Cons.prems c cr f show ?thesis
      by (auto simp: lifecycle_inv_def split: option.splits)
  next
    case (Inr made)
    show ?thesis
    proof (cases made)
      case None
      from Cons.prems f
      have "lifecycle_inv (s1\<lparr>attempts := ((cm, cid), Inr None) # attempts s1\<rparr>)"
        by (auto simp: lifecycle_inv_def split: option.splits)
      then have "lifecycle_inv (snd (load_candidates cfg rt cs
           (s1\<lparr>attempts := ((cm, cid), Inr None) # attempts s1\<rparr>)))"
        by (rule Cons.IH)
      with c cr Inr None show ?thesis by simp
    next
      case (Some h)
      with c cr Inr show ?thesis by (simp add: lifecycle_inv_def)
    qed
  qed
qed

lemma load_model_inv:
  "lifecycle_inv s \<Longrightarrow> lifecycle_inv (snd (load_model cfg rt mode model_id strict s))"
  by (auto simp: load_model_def Let_def load_candidates_inv split: sum.splits)

lemma unload_model_inv: "lifecycle_inv (snd (unload_model s))"
  by (simp add: unload_model_def clear_state_def lifecycle_inv_def)

lemma ensure_loaded_inv:
  "lifecycle_inv s \<Longrightarrow> lifecycle_inv (snd (ensure_loaded cfg rt mode model_id s))"
  by (simp add: ensure_loaded_def load_model_inv)

text \<open>
  C5. In every state that sequences of \<open>load_model\<close>, \<open>unload_model\<close> and
  \<open>_ensure_loaded\<close> reach from the freshly imported module, the loaded flag is true
  exactly when a handle is present; with a handle present, the recorded active mode and
  model id are the candidate pair of the newest instantiation attempt that returned a
  model, and that model is the handle; with no handle, no active mode and no active
  model id are recorded.
\<close>

theorem reachable_lifecycle_inv: "reachable cfg s \<Longrightarrow> lifecycle_inv s"
proof (induction rule: reachable.induct)
  case init
  show ?case by (simp add: lifecycle_inv_def initial_state_def)
next
  case (load s rt mode model_id strict)
  then show ?case by (simp add: load_model_inv)
next
  case (unload s)
  show ?case by (rule unload_model_inv)
next
  case (ensure s rt mode model_id)
  then show ?case by (simp add: ensure_loaded_inv)
qed

theorem reachable_lifecycle_inv_witness:
  "reachable default_config
     (snd (load_model default_config working_runtime (Some ''custom_voice'') None None
             initial_state)) \<and>
   QWEN_MODEL (snd (load_model default_config working_runtime (Some ''custom_voice'') None None
                      initial_state)) = Some 0 \<and>
   lifecycle_inv
     (snd (load_model default_config working_runtime (Some ''custom_voice'') None None
             initial_state))"
proof -
  let ?s = "snd (load_model default_config working_runtime (Some ''custom_voice'') None None
                   initial_state)"
  have r: "reachable default_config ?s"
    by (rule reachable.load [OF reachable.init])
  have h: "QWEN_MODEL ?s = Some 0" by code_simp
  from reachable_lifecycle_inv [OF r] r h show ?thesis by simp
qed

text \<open>
  C3, evaluated where it fails. The constructor raises for the first candidate, the
  default custom-voice model; the exception leaves \<open>load_model\<close>, and the second
  candidate of the list, which this runtime would load, is never tried.
\<close>

theorem load_model_constructor_exception_escapes:
  "candidates_for_mode default_config (resolve_mode default_config (Some ''custom_voice''))
       DEFAULT_CUSTOM_VOICE_MODEL (strict_load (Some ''1''))
     = [(''custom_voice'', DEFAULT_CUSTOM_VOICE_MODEL),
        (''custom_voice'', ''Qwen/Qwen3-TTS-12Hz-1.7B-CustomVoice'')] \<and>
   load_model default_config runtime_missing_default (Some ''custom_voice'') None (Some ''1'')
       initial_state
     = (Inl (Raised ''OSError''),
        initial_state\<lparr>QWEN_MODULE := Some Qwen_tts,
          attempts := [((''custom_voice'', DEFAULT_CUSTOM_VOICE_MODEL),
                        Inl (Raised ''OSError''))]\<rparr>) \<and>
   fst (create_model runtime_missing_default ''Qwen/Qwen3-TTS-12Hz-1.7B-CustomVoice''
          initial_state)
     = Inr (Some 0)"
  by code_simp

end
